theory Spec2Isabelle
  imports Complex_Main "HOL-Library.Word" "HOL-Library.Sublist"
begin

section \<open>Stream server: capture session and broadcast\<close>

text \<open>
  The server (\<^verbatim>\<open>server/src/index.ts\<close> with the \<^verbatim>\<open>ScreenCapture\<close> class) runs on a
  single event loop. Its state is the set of connected sockets, the flag \<^verbatim>\<open>isCapturing\<close>
  of \<^verbatim>\<open>main\<close>, and the two private fields of \<^verbatim>\<open>ScreenCapture\<close>. Each handler is a
  function from state to state; an event of the outside world (a socket connecting, the
  ffmpeg process exiting) selects the handler that runs.

  Sockets and child processes are objects compared by identity; they are natural numbers
  here. A segment is a Node \<^verbatim>\<open>Buffer\<close>, a list of bytes.
\<close>

type_synonym segment = "8 word list"

datatype ready_state = CONNECTING | OPEN | CLOSING | CLOSED

text \<open>
  \<open>clients\<close> is the JavaScript \<^verbatim>\<open>Set<WebSocket>\<close>: a list without duplicates in insertion
  order, which is the order \<^verbatim>\<open>forEach\<close> visits. \<open>ffmpeg\<close> and \<open>isRunning\<close> are the fields
  of \<^verbatim>\<open>ScreenCapture\<close>. The remaining fields are the world the handlers act on:
  \<open>readyState\<close> of every socket, the child processes that were spawned and have not exited
  (\<open>alive\<close>), the processes that were sent SIGTERM (\<open>signalled\<close>), the next process
  identity, and the messages handed to \<^verbatim>\<open>send\<close>.
\<close>

record server =
  clients :: "nat list"
  isCapturing :: bool
  ffmpeg :: "nat option"
  isRunning :: bool
  readyState :: "nat \<Rightarrow> ready_state"
  alive :: "nat list"
  signalled :: "nat list"
  nextPid :: nat
  sent :: "(nat \<times> segment) list"

definition server_init :: server where
  "server_init = \<lparr>clients = [], isCapturing = False, ffmpeg = None, isRunning = False,
     readyState = (\<lambda>_. CONNECTING), alive = [], signalled = [], nextPid = 0, sent = []\<rparr>"

subsection \<open>ScreenCapture\<close>

text \<open>
  \<^verbatim>\<open>start()\<close>: returns early when \<^verbatim>\<open>isRunning\<close>; otherwise spawns ffmpeg, stores the
  handle and sets \<^verbatim>\<open>isRunning\<close>. \<^verbatim>\<open>spawn\<close> always returns a handle; a failure to launch
  is reported later through the \<^verbatim>\<open>error\<close> event of that handle.
\<close>

definition start :: "server \<Rightarrow> server" where
  "start s =
     (if isRunning s then s
      else s\<lparr>ffmpeg := Some (nextPid s), isRunning := True,
             alive := alive s @ [nextPid s], nextPid := Suc (nextPid s)\<rparr>)"

text \<open>
  \<^verbatim>\<open>stop()\<close>: guarded by the handle, not by \<^verbatim>\<open>isRunning\<close>. \<^verbatim>\<open>kill('SIGTERM')\<close> only
  sends the signal; the process exits later and its \<^verbatim>\<open>close\<close> event fires then.
\<close>

definition stop :: "server \<Rightarrow> server" where
  "stop s =
     (case ffmpeg s of
        Some p \<Rightarrow> s\<lparr>signalled := signalled s @ [p], ffmpeg := None, isRunning := False\<rparr>
      | None \<Rightarrow> s)"

subsection \<open>Handlers of main\<close>

text \<open>The broadcast loop \<^verbatim>\<open>clients.forEach\<close> of the \<^verbatim>\<open>data\<close> handler.\<close>

fun broadcast :: "segment \<Rightarrow> nat list \<Rightarrow> server \<Rightarrow> server" where
  "broadcast chunk [] s = s"
| "broadcast chunk (client # rest) s =
     broadcast chunk rest
       (if readyState s client = OPEN then s\<lparr>sent := sent s @ [(client, chunk)]\<rparr> else s)"

definition on_capture_data :: "segment \<Rightarrow> server \<Rightarrow> server" where
  "on_capture_data chunk s = broadcast chunk (clients s) s"

text \<open>\<^verbatim>\<open>screenCapture.on('error')\<close> only logs.\<close>

definition on_capture_error :: "server \<Rightarrow> server" where
  "on_capture_error s = s"

definition on_capture_close :: "server \<Rightarrow> server" where
  "on_capture_close s = s\<lparr>isCapturing := False\<rparr>"

definition on_connection :: "nat \<Rightarrow> server \<Rightarrow> server" where
  "on_connection ws s =
     (let s1 = s\<lparr>clients := (if ws \<in> set (clients s) then clients s else clients s @ [ws])\<rparr>
      in if \<not> isCapturing s1 then (start s1)\<lparr>isCapturing := True\<rparr> else s1)"

definition on_ws_close :: "nat \<Rightarrow> server \<Rightarrow> server" where
  "on_ws_close ws s =
     (let s1 = s\<lparr>clients := removeAll ws (clients s)\<rparr>
      in if length (clients s1) = 0 \<and> isCapturing s1
         then (stop s1)\<lparr>isCapturing := False\<rparr> else s1)"

definition on_ws_error :: "nat \<Rightarrow> server \<Rightarrow> server" where
  "on_ws_error ws s = s\<lparr>clients := removeAll ws (clients s)\<rparr>"

text \<open>
  The listeners that \<^verbatim>\<open>start()\<close> registers on the child process. They are closures over
  \<^verbatim>\<open>this\<close>, not over the process: whichever process fires, they write the one
  \<^verbatim>\<open>isRunning\<close> field and re-emit on the \<^verbatim>\<open>ScreenCapture\<close>.
\<close>

definition on_ffmpeg_data :: "segment \<Rightarrow> server \<Rightarrow> server" where
  "on_ffmpeg_data chunk s = on_capture_data chunk s"

definition on_ffmpeg_close :: "server \<Rightarrow> server" where
  "on_ffmpeg_close s = on_capture_close (s\<lparr>isRunning := False\<rparr>)"

definition on_ffmpeg_error :: "server \<Rightarrow> server" where
  "on_ffmpeg_error s = on_capture_error (s\<lparr>isRunning := False\<rparr>)"

subsection \<open>Events\<close>

text \<open>
  One step of the event loop. A socket is \<open>OPEN\<close> when the server announces it and
  \<open>CLOSED\<close> when its \<^verbatim>\<open>close\<close> event fires; \<open>SocketState\<close> is any other change of a
  socket's \<^verbatim>\<open>readyState\<close>. A process emits \<^verbatim>\<open>data\<close> and \<^verbatim>\<open>close\<close> only while it has not
  exited, and \<^verbatim>\<open>close\<close> is its exit; an event that cannot occur leaves the state as it is.
\<close>

datatype server_event =
    Connection nat
  | WsClose nat
  | WsError nat
  | SocketState nat ready_state
  | FfmpegData nat segment
  | FfmpegClose nat
  | FfmpegError nat

fun server_step :: "server \<Rightarrow> server_event \<Rightarrow> server" where
  "server_step s (Connection ws) =
     on_connection ws (s\<lparr>readyState := (readyState s)(ws := OPEN)\<rparr>)"
| "server_step s (WsClose ws) =
     on_ws_close ws (s\<lparr>readyState := (readyState s)(ws := CLOSED)\<rparr>)"
| "server_step s (WsError ws) = on_ws_error ws s"
| "server_step s (SocketState ws r) = s\<lparr>readyState := (readyState s)(ws := r)\<rparr>"
| "server_step s (FfmpegData p chunk) =
     (if p \<in> set (alive s) then on_ffmpeg_data chunk s else s)"
| "server_step s (FfmpegClose p) =
     (if p \<in> set (alive s) then on_ffmpeg_close (s\<lparr>alive := removeAll p (alive s)\<rparr>) else s)"
| "server_step s (FfmpegError p) =
     (if p \<in> set (alive s) then on_ffmpeg_error s else s)"

definition run_server :: "server \<Rightarrow> server_event list \<Rightarrow> server" where
  "run_server s es = foldl server_step s es"

text \<open>The producers that run and have not been asked to terminate.\<close>

definition running_producers :: "server \<Rightarrow> nat list" where
  "running_producers s = filter (\<lambda>p. p \<notin> set (signalled s)) (alive s)"

section \<open>Stream player: segment queue and playback\<close>

text \<open>
  The hook \<^verbatim>\<open>useStreamPlayer\<close> keeps its state in React refs and state variables and
  reacts to events of three browser objects: the \<^verbatim>\<open>MediaSource\<close>, its \<^verbatim>\<open>SourceBuffer\<close>
  (the decode buffer) and the \<^verbatim>\<open>WebSocket\<close>. Objects are numbered in the order they are
  created. Times are JavaScript numbers, taken here as reals; byte counts are naturals.
\<close>

type_synonym ranges = "(real \<times> real) list"

text \<open>
  The source buffer a ref points to: \<^verbatim>\<open>updating\<close> is true from an accepted
  \<^verbatim>\<open>appendBuffer\<close> or \<^verbatim>\<open>remove\<close> until the browser fires \<^verbatim>\<open>updateend\<close>;
  \<^verbatim>\<open>buffered\<close> is the list of buffered time ranges, oldest first; \<open>sb_source\<close> is
  the media source whose \<^verbatim>\<open>addSourceBuffer\<close> created it.
\<close>

record source_buffer =
  sb_id :: nat
  sb_source :: nat
  updating :: bool
  buffered :: ranges

datatype ms_state = MsClosed | MsOpen | MsEnded

record media_source =
  ms_id :: nat
  ms_readyState :: ms_state

record stats =
  bufferedSeconds :: real
  bytesReceived :: nat

text \<open>
  The calls the hook makes on browser objects, with the answer where there is one
  (\<open>True\<close>: accepted, \<open>False\<close>: an exception was thrown), and the completion events
  the browser fires on a source buffer.
\<close>

datatype action =
    AppendBuffer nat segment bool
  | Remove nat real real bool
  | UpdateEndFired nat
  | EndOfStream nat bool
  | SocketClose nat
  | Play

text \<open>What the browser answers during one run of a handler.\<close>

record browser =
  appendThrows :: bool
  removeThrows :: bool
  playAllowed :: bool

record client =
  wsRef :: "nat option"
  mediaSourceRef :: "media_source option"
  sourceBufferRef :: "source_buffer option"
  queueRef :: "segment list"
  isAppendingRef :: bool
  bytesReceivedRef :: nat
  isConnected :: bool
  isBuffering :: bool
  error :: "string option"
  stats :: stats
  paused :: bool
  nextId :: nat
  calls :: "action list"

definition client_init :: client where
  "client_init = \<lparr>wsRef = None, mediaSourceRef = None, sourceBufferRef = None, queueRef = [],
     isAppendingRef = False, bytesReceivedRef = 0, isConnected = False, isBuffering = True,
     error = None, stats = \<lparr>bufferedSeconds = 0, bytesReceived = 0\<rparr>, paused = True,
     nextId = 0, calls = []\<rparr>"

subsection \<open>The browser's side\<close>

text \<open>
  \<^verbatim>\<open>SourceBuffer.appendBuffer\<close> and \<^verbatim>\<open>SourceBuffer.remove\<close> either throw (\<open>None\<close>) and
  change nothing, or start an asynchronous operation and set \<^verbatim>\<open>updating\<close>. Both throw
  when the buffer is already updating.
\<close>

definition appendBuffer :: "browser \<Rightarrow> segment \<Rightarrow> source_buffer \<Rightarrow> source_buffer option" where
  "appendBuffer b chunk sb =
     (if updating sb \<or> appendThrows b then None else Some (sb\<lparr>updating := True\<rparr>))"

definition remove_range :: "browser \<Rightarrow> real \<Rightarrow> real \<Rightarrow> source_buffer \<Rightarrow> source_buffer option" where
  "remove_range b from to sb =
     (if updating sb \<or> removeThrows b then None else Some (sb\<lparr>updating := True\<rparr>))"

text \<open>
  \<^verbatim>\<open>MediaSource.endOfStream()\<close> throws when the media source is not open and while one
  of its source buffers is updating; the first argument stands for any other reason the
  browser has to throw. The result says whether end-of-stream was signalled.
\<close>

definition endOfStream :: "bool \<Rightarrow> media_source \<Rightarrow> source_buffer option \<Rightarrow> bool" where
  "endOfStream throwsAnyway m sbo =
     (ms_readyState m = MsOpen \<and> \<not> throwsAnyway \<and>
      (case sbo of
         None \<Rightarrow> True
       | Some sb \<Rightarrow> \<not> (sb_source sb = ms_id m \<and> updating sb)))"

text \<open>
  \<^verbatim>\<open>video.play()\<close>: the element leaves the paused state unless the browser refuses to
  play; the refusal rejects the returned promise, which the hook only logs.
\<close>

definition play :: "browser \<Rightarrow> client \<Rightarrow> client" where
  "play b s = s\<lparr>paused := (if playAllowed b then False else paused s), calls := calls s @ [Play]\<rparr>"

subsection \<open>appendNextChunk\<close>

text \<open>
  The test of the recovery path,
  \<^verbatim>\<open>buffered.length > 0 && buffered.end(0) - buffered.start(0) > 10\<close>, and the window
  it passes to \<^verbatim>\<open>remove\<close>.
\<close>

definition eviction_window :: "ranges \<Rightarrow> (real \<times> real) option" where
  "eviction_window rs =
     (case rs of
        [] \<Rightarrow> None
      | (start0, end0) # _ \<Rightarrow> if end0 - start0 > 10 then Some (start0, start0 + 5) else None)"

text \<open>
  The \<^verbatim>\<open>catch\<close> block of \<^verbatim>\<open>appendNextChunk\<close>, entered with the source buffer \<open>sb\<close> that
  rejected the chunk: clear the flag, then, unless the buffer is updating, try to remove
  the window; an exception of \<^verbatim>\<open>remove\<close> is logged and dropped.
\<close>

definition recover :: "browser \<Rightarrow> source_buffer \<Rightarrow> client \<Rightarrow> client" where
  "recover b sb s =
     (let s1 = s\<lparr>isAppendingRef := False\<rparr>
      in if \<not> updating sb then
           (case eviction_window (buffered sb) of
              None \<Rightarrow> s1
            | Some (from, to) \<Rightarrow>
                (case remove_range b from to sb of
                   Some sb' \<Rightarrow> s1\<lparr>sourceBufferRef := Some sb',
                                 calls := calls s1 @ [Remove (sb_id sb) from to True]\<rparr>
                 | None \<Rightarrow> s1\<lparr>calls := calls s1 @ [Remove (sb_id sb) from to False]\<rparr>))
         else s1)"

definition appendNextChunk :: "browser \<Rightarrow> client \<Rightarrow> client" where
  "appendNextChunk b s =
     (case sourceBufferRef s of
        None \<Rightarrow> s
      | Some sb \<Rightarrow>
          if isAppendingRef s \<or> length (queueRef s) = 0 then s
          else if updating sb then s
          else
            (case queueRef s of
               [] \<Rightarrow> s\<lparr>isAppendingRef := True\<rparr>
             | chunk # rest \<Rightarrow>
                 let s1 = s\<lparr>isAppendingRef := True, queueRef := rest\<rparr>
                 in (case appendBuffer b chunk sb of
                       Some sb' \<Rightarrow> s1\<lparr>sourceBufferRef := Some sb',
                                     calls := calls s1 @ [AppendBuffer (sb_id sb) chunk True]\<rparr>
                     | None \<Rightarrow> recover b sb
                                 (s1\<lparr>calls := calls s1 @ [AppendBuffer (sb_id sb) chunk False]\<rparr>))))"

subsection \<open>cleanup, connect, disconnect\<close>

text \<open>
  \<^verbatim>\<open>cleanup\<close>. The argument is passed to \<open>endOfStream\<close>; the hook ignores the
  exception of \<^verbatim>\<open>endOfStream()\<close>, so only the recorded answer differs.
\<close>

definition cleanup :: "bool \<Rightarrow> client \<Rightarrow> client" where
  "cleanup eosThrows s =
     (let s1 = (case wsRef s of
                  Some w \<Rightarrow> s\<lparr>wsRef := None, calls := calls s @ [SocketClose w]\<rparr>
                | None \<Rightarrow> s);
          s2 = (case mediaSourceRef s1 of
                  Some m \<Rightarrow>
                    if ms_readyState m = MsOpen
                    then s1\<lparr>calls := calls s1 @
                              [EndOfStream (ms_id m) (endOfStream eosThrows m (sourceBufferRef s1))]\<rparr>
                    else s1
                | None \<Rightarrow> s1)
      in s2\<lparr>mediaSourceRef := None, sourceBufferRef := None, queueRef := [],
            isAppendingRef := False, bytesReceivedRef := 0, isConnected := False,
            isBuffering := True, stats := \<lparr>bufferedSeconds = 0, bytesReceived = 0\<rparr>\<rparr>)"

text \<open>
  \<^verbatim>\<open>connect\<close>, up to the registration of the listeners. \<open>hasVideo\<close> is
  \<^verbatim>\<open>videoRef.current\<close> being set, \<open>mseSupported\<close> is \<^verbatim>\<open>'MediaSource' in window\<close>.
\<close>

definition connect :: "bool \<Rightarrow> bool \<Rightarrow> bool \<Rightarrow> client \<Rightarrow> client" where
  "connect eosThrows hasVideo mseSupported s =
     (let s1 = (cleanup eosThrows s)\<lparr>error := None\<rparr>
      in if \<not> hasVideo then s1\<lparr>error := Some ''Video element not found''\<rparr>
         else if \<not> mseSupported
         then s1\<lparr>error := Some ''MediaSource API not supported in this browser''\<rparr>
         else s1\<lparr>mediaSourceRef := Some \<lparr>ms_id = nextId s1, ms_readyState = MsClosed\<rparr>,
                 nextId := Suc (nextId s1)\<rparr>)"

definition disconnect :: "bool \<Rightarrow> client \<Rightarrow> client" where
  "disconnect eosThrows s = cleanup eosThrows s"

subsection \<open>Listeners\<close>

text \<open>
  The \<^verbatim>\<open>sourceopen\<close> listener of media source \<open>m\<close>. Its \<^verbatim>\<open>try\<close> block ends in one of four ways: the codec is
  not supported (early return), \<^verbatim>\<open>addSourceBuffer\<close> throws, a later statement throws
  (setting the mode, or \<^verbatim>\<open>new WebSocket\<close>) after the buffer ref was written, or all of it
  runs.
\<close>

datatype open_result = CodecUnsupported | AddSourceBufferThrows | LaterStatementThrows | AllCreated

definition codec_message :: string where
  "codec_message = ''Codec not supported: video/webm; codecs='' @ [CHR 0x22] @ ''vp8'' @ [CHR 0x22]"

definition on_sourceopen :: "nat \<Rightarrow> open_result \<Rightarrow> client \<Rightarrow> client" where
  "on_sourceopen m r s =
     (case r of
        CodecUnsupported \<Rightarrow> s\<lparr>error := Some codec_message\<rparr>
      | AddSourceBufferThrows \<Rightarrow> s\<lparr>error := Some ''Failed to initialize video player''\<rparr>
      | LaterStatementThrows \<Rightarrow>
          s\<lparr>sourceBufferRef := Some \<lparr>sb_id = nextId s, sb_source = m, updating = False, buffered = []\<rparr>,
            nextId := Suc (nextId s), error := Some ''Failed to initialize video player''\<rparr>
      | AllCreated \<Rightarrow>
          s\<lparr>sourceBufferRef := Some \<lparr>sb_id = nextId s, sb_source = m, updating = False, buffered = []\<rparr>,
            wsRef := Some (Suc (nextId s)), nextId := Suc (Suc (nextId s))\<rparr>)"

definition on_mediasource_error :: "client \<Rightarrow> client" where
  "on_mediasource_error s = s\<lparr>error := Some ''MediaSource error''\<rparr>"

text \<open>
  The \<^verbatim>\<open>updateend\<close> listener; \<open>rs\<close> is \<^verbatim>\<open>sourceBuffer.buffered\<close> of the buffer the
  listener was registered on.
\<close>

definition on_updateend :: "ranges \<Rightarrow> browser \<Rightarrow> client \<Rightarrow> client" where
  "on_updateend rs b s =
     (let s1 = s\<lparr>isAppendingRef := False\<rparr>;
          s2 = (case rs of
                  [] \<Rightarrow> s1
                | (start0, end0) # _ \<Rightarrow>
                    let s' = s1\<lparr>stats := \<lparr>bufferedSeconds = end0 - start0,
                                           bytesReceived = bytesReceivedRef s1\<rparr>\<rparr>
                    in if end0 - start0 > 0.5 \<and> paused s'
                       then (play b s')\<lparr>isBuffering := False\<rparr> else s')
      in appendNextChunk b s2)"

definition ws_onopen :: "client \<Rightarrow> client" where
  "ws_onopen s = s\<lparr>isConnected := True\<rparr>"

definition ws_onmessage :: "segment \<Rightarrow> browser \<Rightarrow> client \<Rightarrow> client" where
  "ws_onmessage data b s =
     appendNextChunk b
       (s\<lparr>bytesReceivedRef := bytesReceivedRef s + length data, queueRef := queueRef s @ [data]\<rparr>)"

definition ws_onerror :: "client \<Rightarrow> client" where
  "ws_onerror s = s\<lparr>error := Some ''WebSocket connection error''\<rparr>"

definition ws_onclose :: "client \<Rightarrow> client" where
  "ws_onclose s = s\<lparr>isConnected := False\<rparr>"

subsection \<open>Events\<close>

text \<open>
  One step of the client's event loop. The user calls \<^verbatim>\<open>connect\<close> and \<^verbatim>\<open>disconnect\<close>;
  the browser fires the listeners. A listener stays registered on its object after
  \<^verbatim>\<open>cleanup\<close> dropped the ref, so an event may name any object, also one of an earlier
  session. Before \<^verbatim>\<open>sourceopen\<close> the media source is open; before \<^verbatim>\<open>updateend\<close> the
  buffer has stopped updating and reports its new ranges. \<open>VideoPaused\<close> is a change of
  \<^verbatim>\<open>video.paused\<close> made by the browser.
\<close>

datatype client_event =
    Connect bool bool bool
  | Disconnect bool
  | SourceOpen nat open_result
  | SourceEnded nat
  | MediaSourceError nat
  | SourceBufferError nat
  | UpdateEnd nat ranges browser
  | SocketOpen nat
  | SocketMessage nat segment browser
  | SocketError nat
  | SocketClosed nat
  | VideoPaused bool

definition opened :: "nat \<Rightarrow> client \<Rightarrow> client" where
  "opened m s =
     (case mediaSourceRef s of
        Some ms \<Rightarrow> if ms_id ms = m then s\<lparr>mediaSourceRef := Some (ms\<lparr>ms_readyState := MsOpen\<rparr>)\<rparr> else s
      | None \<Rightarrow> s)"

definition finished :: "nat \<Rightarrow> ranges \<Rightarrow> client \<Rightarrow> client" where
  "finished i rs s =
     (let s1 = s\<lparr>calls := calls s @ [UpdateEndFired i]\<rparr>
      in case sourceBufferRef s1 of
           Some sb \<Rightarrow>
             if sb_id sb = i
             then s1\<lparr>sourceBufferRef := Some (sb\<lparr>updating := False, buffered := rs\<rparr>)\<rparr> else s1
         | None \<Rightarrow> s1)"

fun client_step :: "client \<Rightarrow> client_event \<Rightarrow> client" where
  "client_step s (Connect eosThrows hasVideo mseSupported) = connect eosThrows hasVideo mseSupported s"
| "client_step s (Disconnect eosThrows) = disconnect eosThrows s"
| "client_step s (SourceOpen m r) = on_sourceopen m r (opened m s)"
| "client_step s (SourceEnded m) = s"
| "client_step s (MediaSourceError m) = on_mediasource_error s"
| "client_step s (SourceBufferError i) = s"
| "client_step s (UpdateEnd i rs b) = on_updateend rs b (finished i rs s)"
| "client_step s (SocketOpen w) = ws_onopen s"
| "client_step s (SocketMessage w data b) = ws_onmessage data b s"
| "client_step s (SocketError w) = ws_onerror s"
| "client_step s (SocketClosed w) = ws_onclose s"
| "client_step s (VideoPaused p) = s\<lparr>paused := p\<rparr>"

definition run_client :: "client \<Rightarrow> client_event list \<Rightarrow> client" where
  "run_client s es = foldl client_step s es"

text \<open>The status line of \<^verbatim>\<open>StreamViewer\<close>.\<close>

datatype playback = Disconnected | Buffering | Streaming

definition status :: "client \<Rightarrow> playback" where
  "status s = (if isConnected s then (if isBuffering s then Buffering else Streaming) else Disconnected)"

subsection \<open>Reading the record of calls\<close>




text \<open>
  The segments handed to \<^verbatim>\<open>appendBuffer\<close>, the segments it accepted, and the segments
  that arrived on the socket, each in order of time.
\<close>

fun submission :: "action \<Rightarrow> segment option" where
  "submission (AppendBuffer i chunk ok) = Some chunk"
| "submission a = None"

fun acceptance :: "action \<Rightarrow> segment option" where
  "acceptance (AppendBuffer i chunk ok) = (if ok then Some chunk else None)"
| "acceptance a = None"

fun arrival :: "client_event \<Rightarrow> segment option" where
  "arrival (SocketMessage w data b) = Some data"
| "arrival e = None"

definition submitted :: "action list \<Rightarrow> segment list" where
  "submitted cs = List.map_filter submission cs"

definition delivered :: "action list \<Rightarrow> segment list" where
  "delivered cs = List.map_filter acceptance cs"

definition arrivals :: "client_event list \<Rightarrow> segment list" where
  "arrivals es = List.map_filter arrival es"

text \<open>The events that leave the session in place: all but \<^verbatim>\<open>connect\<close> and \<^verbatim>\<open>disconnect\<close>.\<close>

fun in_session :: "client_event \<Rightarrow> bool" where
  "in_session (Connect eosThrows hasVideo mseSupported) = False"
| "in_session (Disconnect eosThrows) = False"
| "in_session e = True"

fun is_connect :: "client_event \<Rightarrow> bool" where
  "is_connect (Connect eosThrows hasVideo mseSupported) = True"
| "is_connect e = False"

fun is_updateend :: "client_event \<Rightarrow> bool" where
  "is_updateend (UpdateEnd i rs b) = True"
| "is_updateend e = False"

subsection \<open>An invariant of the record of calls\<close>


subsection \<open>Sample sessions\<close>

text \<open>
  A browser that accepts every call, one that rejects \<^verbatim>\<open>appendBuffer\<close> and one that
  refuses to play; a session
  right after its socket opened, one with the append of its first segment in flight, and
  one that plays with twelve time units buffered.
\<close>

definition accepting :: browser where
  "accepting = \<lparr>appendThrows = False, removeThrows = False, playAllowed = True\<rparr>"

definition rejecting :: browser where
  "rejecting = \<lparr>appendThrows = True, removeThrows = False, playAllowed = True\<rparr>"

definition refusing :: browser where
  "refusing = \<lparr>appendThrows = False, removeThrows = False, playAllowed = False\<rparr>"

definition session_open :: client where
  "session_open = run_client client_init
     [Connect False True True, SourceOpen 0 AllCreated, SocketOpen 2]"

definition in_flight :: client where
  "in_flight = run_client client_init
     [Connect False True True, SourceOpen 0 AllCreated, SocketOpen 2, SocketMessage 2 [1] accepting]"

definition long_buffered :: client where
  "long_buffered = run_client client_init
     [Connect False True True, SourceOpen 0 AllCreated, SocketOpen 2,
      SocketMessage 2 [1] accepting, SocketMessage 2 [2] accepting, UpdateEnd 1 [(0, 12)] accepting,
      UpdateEnd 1 [(0, 12)] accepting]"

section \<open>Server: properties\<close>

lemma start_while_running: "isRunning s \<Longrightarrow> start s = s"
  by (simp add: start_def)

lemma stop_without_handle: "ffmpeg s = None \<Longrightarrow> stop s = s"
  by (simp add: stop_def)

lemma broadcast_eq:
  "broadcast chunk cs s =
     s\<lparr>sent := sent s @ map (\<lambda>c. (c, chunk)) (filter (\<lambda>c. readyState s c = OPEN) cs)\<rparr>"
  by (induction cs arbitrary: s) auto

text \<open>
  C1. The claim: over any sequence of join, leave and producer exit events at most one
  producer runs at a time. The code guards \<^verbatim>\<open>start()\<close> with \<^verbatim>\<open>isRunning\<close>, but the
  \<^verbatim>\<open>close\<close> listener of a producer that was stopped earlier clears \<^verbatim>\<open>isRunning\<close> and
  \<^verbatim>\<open>isCapturing\<close> of the session that replaced it. Here socket 1 joins and leaves
  (producer 0 is sent SIGTERM), socket 2 joins (producer 1 starts), producer 0 exits, and
  socket 3 joins: producer 2 is spawned while producer 1 still runs, and the handle of
  producer 1 is lost.
\<close>

theorem producer_singleton_violated:
  "running_producers (run_server server_init
      [Connection 1, WsClose 1, Connection 2, FfmpegClose 0, Connection 3]) = [1, 2]
   \<and> ffmpeg (run_server server_init
      [Connection 1, WsClose 1, Connection 2, FfmpegClose 0, Connection 3]) = Some 2"
  by (simp add: run_server_def server_init_def on_connection_def on_ws_close_def
      on_ffmpeg_close_def on_capture_close_def start_def stop_def running_producers_def)

text \<open>
  C3. The claim as amended: on a fan-out the segment is handed to \<^verbatim>\<open>send\<close> once for every
  socket of the set whose \<^verbatim>\<open>readyState\<close> is \<open>OPEN\<close>, in the order of the set; a socket
  in any other state is passed over, which never stops the loop; and the set itself is
  left as it was, since sockets leave the set only in their own \<^verbatim>\<open>close\<close> and \<^verbatim>\<open>error\<close>
  handlers.
\<close>

theorem fanout_delivers_to_open_sockets:
  "clients (on_capture_data chunk s) = clients s
   \<and> sent (on_capture_data chunk s) =
       sent s @ map (\<lambda>c. (c, chunk)) (filter (\<lambda>c. readyState s c = OPEN) (clients s))"
  by (simp add: on_capture_data_def broadcast_eq [of chunk "clients s" s])

text \<open>
  C3, the claim as stated, fails: sockets 1 and 3 are found not open (closing and closed)
  during the fan-out of a segment; socket 2 receives it, and sockets 1 and 3 are still in
  the set afterwards.
\<close>

theorem fanout_keeps_closed_sockets:
  "clients (run_server server_init
      [Connection 1, Connection 2, Connection 3, SocketState 1 CLOSING, SocketState 3 CLOSED,
       FfmpegData 0 [7]]) = [1, 2, 3]
   \<and> sent (run_server server_init
      [Connection 1, Connection 2, Connection 3, SocketState 1 CLOSING, SocketState 3 CLOSED,
       FfmpegData 0 [7]]) = [(2, [7])]"
  by (simp add: run_server_def server_init_def on_connection_def start_def
      on_ffmpeg_data_def on_capture_data_def)

text \<open>
  The \<^verbatim>\<open>close\<close> handler of a socket stops the capture when it empties the set while
  \<^verbatim>\<open>isCapturing\<close> holds.
\<close>

lemma close_drain_stops:
  assumes "removeAll ws (clients s) = []" and "isCapturing s" and "ffmpeg s = Some p"
  shows "p \<in> set (signalled (on_ws_close ws s)) \<and> ffmpeg (on_ws_close ws s) = None
         \<and> \<not> isRunning (on_ws_close ws s) \<and> \<not> isCapturing (on_ws_close ws s)"
  using assms by (simp add: on_ws_close_def stop_def)

text \<open>
  C4. The claim: a removal that empties the set while the capture runs calls \<^verbatim>\<open>stop()\<close>,
  on the \<^verbatim>\<open>close\<close> path and on the \<^verbatim>\<open>error\<close> path alike. The \<^verbatim>\<open>error\<close> handler only
  deletes the socket. Socket 1 joins and then reports an error: the set is empty, no signal
  was sent, and producer 0 keeps running with \<^verbatim>\<open>isCapturing\<close> and \<^verbatim>\<open>isRunning\<close> set.
\<close>

theorem error_drain_does_not_stop:
  "clients (run_server server_init [Connection 1, WsError 1]) = []
   \<and> signalled (run_server server_init [Connection 1, WsError 1]) = []
   \<and> running_producers (run_server server_init [Connection 1, WsError 1]) = [0]
   \<and> ffmpeg (run_server server_init [Connection 1, WsError 1]) = Some 0
   \<and> isRunning (run_server server_init [Connection 1, WsError 1])
   \<and> isCapturing (run_server server_init [Connection 1, WsError 1])"
  by (simp add: run_server_def server_init_def on_connection_def on_ws_error_def start_def
      running_producers_def)

text \<open>One direction of the handle invariant holds in every reachable state.\<close>

lemma running_has_handle_step:
  "(isRunning s \<longrightarrow> ffmpeg s \<noteq> None) \<Longrightarrow>
   isRunning (server_step s e) \<longrightarrow> ffmpeg (server_step s e) \<noteq> None"
  by (cases e)
     (auto simp: on_connection_def on_ws_close_def on_ws_error_def on_ffmpeg_data_def
        on_capture_data_def on_ffmpeg_close_def on_capture_close_def on_ffmpeg_error_def
        on_capture_error_def start_def stop_def Let_def broadcast_eq split: option.splits)

lemma running_has_handle:
  "isRunning (run_server server_init es) \<longrightarrow> ffmpeg (run_server server_init es) \<noteq> None"
proof (induction es rule: rev_induct)
  case Nil
  show ?case by (simp add: run_server_def server_init_def)
next
  case (snoc e es)
  then show ?case
    using running_has_handle_step [of "run_server server_init es" e]
    by (simp add: run_server_def)
qed

text \<open>
  C9. The claim: the producer handle is present exactly when the session is running, and
  after the producer exits by itself the session is idle and holds no handle. \<^verbatim>\<open>stop()\<close>
  clears the handle together with \<^verbatim>\<open>isRunning\<close>; the \<^verbatim>\<open>close\<close> and \<^verbatim>\<open>error\<close> listeners of
  the process clear \<^verbatim>\<open>isRunning\<close> only. Socket 1 joins and producer 0 exits: the session
  is idle and still holds the handle of the dead process.
\<close>

theorem handle_kept_after_exit:
  "\<not> isRunning (run_server server_init [Connection 1, FfmpegClose 0])
   \<and> ffmpeg (run_server server_init [Connection 1, FfmpegClose 0]) = Some 0
   \<and> alive (run_server server_init [Connection 1, FfmpegClose 0]) = []"
  by (simp add: run_server_def server_init_def on_connection_def start_def
      on_ffmpeg_close_def on_capture_close_def)

section \<open>Stream player: properties\<close>

lemmas handler_defs = connect_def disconnect_def cleanup_def on_sourceopen_def opened_def
  finished_def on_updateend_def on_mediasource_error_def ws_onopen_def ws_onmessage_def
  ws_onerror_def ws_onclose_def play_def

lemmas run_defs = run_client_def client_init_def accepting_def rejecting_def refusing_def
  endOfStream_def connect_def
  disconnect_def cleanup_def on_sourceopen_def opened_def finished_def on_updateend_def
  on_mediasource_error_def ws_onopen_def ws_onmessage_def ws_onerror_def ws_onclose_def play_def
  appendNextChunk_def appendBuffer_def recover_def remove_range_def eviction_window_def

lemma session_open_eq:
  "session_open = \<lparr>wsRef = Some 2, mediaSourceRef = Some \<lparr>ms_id = 0, ms_readyState = MsOpen\<rparr>,
     sourceBufferRef = Some \<lparr>sb_id = 1, sb_source = 0, updating = False, buffered = []\<rparr>, queueRef = [],
     isAppendingRef = False, bytesReceivedRef = 0, isConnected = True, isBuffering = True,
     error = None, stats = \<lparr>bufferedSeconds = 0, bytesReceived = 0\<rparr>, paused = True,
     nextId = 3, calls = []\<rparr>"
  by (simp add: session_open_def run_defs)

lemma in_flight_eq:
  "in_flight = \<lparr>wsRef = Some 2, mediaSourceRef = Some \<lparr>ms_id = 0, ms_readyState = MsOpen\<rparr>,
     sourceBufferRef = Some \<lparr>sb_id = 1, sb_source = 0, updating = True, buffered = []\<rparr>, queueRef = [],
     isAppendingRef = True, bytesReceivedRef = 1, isConnected = True, isBuffering = True,
     error = None, stats = \<lparr>bufferedSeconds = 0, bytesReceived = 0\<rparr>, paused = True,
     nextId = 3, calls = [AppendBuffer 1 [1] True]\<rparr>"
  by (simp add: in_flight_def run_defs)

lemma long_buffered_eq:
  "long_buffered = \<lparr>wsRef = Some 2, mediaSourceRef = Some \<lparr>ms_id = 0, ms_readyState = MsOpen\<rparr>,
     sourceBufferRef = Some \<lparr>sb_id = 1, sb_source = 0, updating = False, buffered = [(0, 12)]\<rparr>, queueRef = [],
     isAppendingRef = False, bytesReceivedRef = 2, isConnected = True, isBuffering = False,
     error = None, stats = \<lparr>bufferedSeconds = 12, bytesReceived = 2\<rparr>, paused = False,
     nextId = 3,
     calls = [AppendBuffer 1 [1] True, UpdateEndFired 1, Play, AppendBuffer 1 [2] True,
              UpdateEndFired 1]\<rparr>"
  by (simp add: long_buffered_def run_defs)

lemma appendNextChunk_frame:
  "stats (appendNextChunk b s) = stats s" "isBuffering (appendNextChunk b s) = isBuffering s"
  "paused (appendNextChunk b s) = paused s" "isConnected (appendNextChunk b s) = isConnected s"
  "error (appendNextChunk b s) = error s" "wsRef (appendNextChunk b s) = wsRef s"
  "mediaSourceRef (appendNextChunk b s) = mediaSourceRef s"
  "bytesReceivedRef (appendNextChunk b s) = bytesReceivedRef s"
  "nextId (appendNextChunk b s) = nextId s"
  by (simp_all add: appendNextChunk_def recover_def Let_def split: option.splits list.splits prod.splits)

lemma appendNextChunk_plays:
  "count_list (calls (appendNextChunk b s)) Play = count_list (calls s) Play"
  by (simp add: appendNextChunk_def recover_def Let_def split: option.splits list.splits prod.splits)

lemma appendNextChunk_rejected:
  assumes "sourceBufferRef s = Some sb" and "\<not> isAppendingRef s" and "\<not> updating sb"
    and "queueRef s = chunk # rest" and "appendThrows b"
  shows "\<not> isAppendingRef (appendNextChunk b s)"
    and "queueRef (appendNextChunk b s) = rest"
    and "calls (appendNextChunk b s) =
          calls s @ AppendBuffer (sb_id sb) chunk False #
            (case eviction_window (buffered sb) of
               None \<Rightarrow> []
             | Some (lo, hi) \<Rightarrow> [Remove (sb_id sb) lo hi (\<not> removeThrows b)])"
    and "sourceBufferRef (appendNextChunk b s) =
          Some (sb\<lparr>updating := (eviction_window (buffered sb) \<noteq> None \<and> \<not> removeThrows b)\<rparr>)"
  using assms
  by (auto simp: appendNextChunk_def appendBuffer_def recover_def remove_range_def Let_def
      split: option.splits)

lemma appendNextChunk_accepted:
  assumes "sourceBufferRef s = Some sb" and "\<not> isAppendingRef s" and "\<not> updating sb"
    and "queueRef s = chunk # rest" and "\<not> appendThrows b"
  shows "calls (appendNextChunk b s) = calls s @ [AppendBuffer (sb_id sb) chunk True]"
    and "queueRef (appendNextChunk b s) = rest"
  using assms
  by (simp_all add: appendNextChunk_def appendBuffer_def Let_def)

lemma appendNextChunk_busy:
  assumes "sourceBufferRef s = Some sb" and "isAppendingRef s \<or> updating sb"
  shows "appendNextChunk b s = s"
  using assms by (auto simp: appendNextChunk_def)

lemma finished_frame:
  "paused (finished i rs s) = paused s" "isBuffering (finished i rs s) = isBuffering s"
  "isConnected (finished i rs s) = isConnected s" "stats (finished i rs s) = stats s"
  "error (finished i rs s) = error s" "queueRef (finished i rs s) = queueRef s"
  "count_list (calls (finished i rs s)) Play = count_list (calls s) Play"
  by (simp_all add: finished_def Let_def split: option.splits)

lemma cleanup_twice: "cleanup e' (cleanup e s) = cleanup e s"
  by (simp add: cleanup_def Let_def split: option.splits)

lemma submitted_append: "submitted (xs @ ys) = submitted xs @ submitted ys"
  by (simp add: submitted_def map_filter_def)

lemma submitted_Cons:
  "submitted (a # cs) = (case submission a of None \<Rightarrow> [] | Some c \<Rightarrow> [c]) @ submitted cs"
  by (simp add: submitted_def map_filter_def split: option.splits)

lemma submitted_Nil: "submitted [] = []"
  by (simp add: submitted_def map_filter_def)

lemma arrivals_Cons: "arrivals (e # es) = (case arrival e of None \<Rightarrow> [] | Some d \<Rightarrow> [d]) @ arrivals es"
  by (simp add: arrivals_def map_filter_def split: option.splits)

lemma delivered_subseq: "subseq (delivered cs) (submitted cs)"
proof (induction cs)
  case Nil
  show ?case by (simp add: delivered_def submitted_def map_filter_def)
next
  case (Cons a cs)
  then show ?case
    by (cases a) (auto simp: delivered_def submitted_def map_filter_def)
qed












lemma appendNextChunk_order:
  "submitted (calls (appendNextChunk b s)) @ queueRef (appendNextChunk b s) =
     submitted (calls s) @ queueRef s"
  by (auto simp: appendNextChunk_def appendBuffer_def recover_def remove_range_def Let_def
      submitted_append submitted_Cons submitted_Nil split: option.splits list.splits prod.splits)

lemma step_order:
  assumes "in_session e"
  shows "submitted (calls (client_step s e)) @ queueRef (client_step s e) =
     submitted (calls s) @ queueRef s @ (case arrival e of None \<Rightarrow> [] | Some d \<Rightarrow> [d])"
proof (cases e)
  case (UpdateEnd i rs b)
  have "submitted (calls (client_step s e)) @ queueRef (client_step s e) =
      submitted (calls (finished i rs s)) @ queueRef (finished i rs s)"
    unfolding UpdateEnd client_step.simps on_updateend_def Let_def
    by (simp add: appendNextChunk_order play_def submitted_append submitted_Cons submitted_Nil
        split: list.splits prod.splits)
  also have "\<dots> = submitted (calls s) @ queueRef s"
    by (simp add: finished_def Let_def submitted_append submitted_Cons submitted_Nil split: option.splits)
  finally show ?thesis by (simp add: UpdateEnd)
next
  case (SocketMessage w d b)
  show ?thesis
    unfolding SocketMessage client_step.simps ws_onmessage_def
    by (simp add: appendNextChunk_order)
qed (use assms in \<open>simp_all add: on_sourceopen_def opened_def on_mediasource_error_def
      ws_onopen_def ws_onerror_def ws_onclose_def split: open_result.splits option.splits\<close>)

lemma run_order:
  "list_all in_session es \<Longrightarrow>
   submitted (calls (run_client s es)) @ queueRef (run_client s es) =
     submitted (calls s) @ queueRef s @ arrivals es"
proof (induction es arbitrary: s)
  case Nil
  show ?case by (simp add: run_client_def arrivals_def map_filter_def)
next
  case (Cons e es)
  then have e: "in_session e" and es: "list_all in_session es" by simp_all
  have "run_client s (e # es) = run_client (client_step s e) es"
    by (simp add: run_client_def)
  then show ?case
    using Cons.IH [OF es, of "client_step s e"] step_order [OF e, of s]
    by (simp add: arrivals_Cons)
qed

text \<open>
  C5. The claim as amended: within a session (no \<^verbatim>\<open>connect\<close> or \<^verbatim>\<open>disconnect\<close>, which
  clear the queue) the segments handed to \<^verbatim>\<open>appendBuffer\<close> so far, followed by the
  queue, are exactly the segments that arrived, in arrival order: a segment leaves the queue
  only by being handed to the decode buffer, once, and in its turn. What the decode buffer
  accepted is a subsequence of what was handed to it, hence of the arrivals: a segment whose
  append raised an error is not queued again.
\<close>

theorem submission_in_arrival_order:
  "(list_all in_session es \<longrightarrow>
      submitted (calls (run_client s es)) @ queueRef (run_client s es) =
        submitted (calls s) @ queueRef s @ arrivals es)
   \<and> subseq (delivered (calls (run_client s es))) (submitted (calls (run_client s es)))
   \<and> (list_all in_session es \<and> calls s = [] \<and> queueRef s = [] \<longrightarrow>
        subseq (delivered (calls (run_client s es))) (arrivals es))"
proof -
  have "subseq (delivered (calls (run_client s es))) (arrivals es)"
    if "list_all in_session es" "calls s = []" "queueRef s = []"
  proof -
    have "submitted (calls (run_client s es)) @ queueRef (run_client s es) = arrivals es"
      using run_order [OF that(1), of s] that(2,3) by (simp add: submitted_def map_filter_def)
    then have "subseq (submitted (calls (run_client s es))) (arrivals es)"
      by (metis prefix_imp_subseq prefixI)
    then show ?thesis
      using delivered_subseq subseq_order.trans by blast
  qed
  then show ?thesis
    using run_order [of es s] delivered_subseq by blast
qed

text \<open>
  C5 as amended, at a concrete session: three segments arrive, the append of the second is
  rejected.
\<close>

theorem submission_in_arrival_order_witness:
  "list_all in_session [SocketMessage 2 [1] accepting, SocketMessage 2 [2] rejecting,
       UpdateEnd 1 [(0, 1)] accepting, SocketMessage 2 [3] accepting]
   \<and> calls session_open = [] \<and> queueRef session_open = []
   \<and> submitted (calls (run_client session_open
        [SocketMessage 2 [1] accepting, SocketMessage 2 [2] rejecting,
         UpdateEnd 1 [(0, 1)] accepting, SocketMessage 2 [3] accepting]))
      @ queueRef (run_client session_open
        [SocketMessage 2 [1] accepting, SocketMessage 2 [2] rejecting,
         UpdateEnd 1 [(0, 1)] accepting, SocketMessage 2 [3] accepting]) = [[1], [2], [3]]
   \<and> subseq (delivered (calls (run_client session_open
        [SocketMessage 2 [1] accepting, SocketMessage 2 [2] rejecting,
         UpdateEnd 1 [(0, 1)] accepting, SocketMessage 2 [3] accepting]))) [[1], [2], [3]]"
proof -
  have h: "calls session_open = []" "queueRef session_open = []"
    "submitted (calls session_open) = []"
    "arrivals [SocketMessage 2 [1] accepting, SocketMessage 2 [2] rejecting,
       UpdateEnd 1 [(0, 1)] accepting, SocketMessage 2 [3] accepting] = [[1], [2], [3]]"
    by (simp_all add: session_open_eq submitted_def arrivals_def map_filter_def)
  show ?thesis
    using submission_in_arrival_order [of
        "[SocketMessage 2 [1] accepting, SocketMessage 2 [2] rejecting,
          UpdateEnd 1 [(0, 1)] accepting, SocketMessage 2 [3] accepting]" session_open] h
    by simp
qed

text \<open>
  C5, the claim as stated, fails: segments \<open>[1]\<close> and \<open>[2]\<close> arrive, the decode buffer
  rejects the append of \<open>[1]\<close> and accepts \<open>[2]\<close>. Segment \<open>[1]\<close> was taken off the
  queue before the call and is not put back: it is neither queued nor delivered.
\<close>

theorem segment_dropped_on_rejected_append:
  "arrivals [Connect False True True, SourceOpen 0 AllCreated, SocketOpen 2,
       SocketMessage 2 [1] rejecting, SocketMessage 2 [2] accepting] = [[1], [2]]
   \<and> queueRef (run_client client_init
      [Connect False True True, SourceOpen 0 AllCreated, SocketOpen 2,
       SocketMessage 2 [1] rejecting, SocketMessage 2 [2] accepting]) = []
   \<and> delivered (calls (run_client client_init
      [Connect False True True, SourceOpen 0 AllCreated, SocketOpen 2,
       SocketMessage 2 [1] rejecting, SocketMessage 2 [2] accepting])) = [[2]]"
  by (simp add: run_defs arrivals_def delivered_def map_filter_def)

text \<open>
  C6. The claim as amended: when \<^verbatim>\<open>appendBuffer\<close> raises, \<^verbatim>\<open>appendNextChunk\<close> returns
  normally with the flag cleared and with the socket, the connection state, the error and
  the statistics untouched. It calls \<^verbatim>\<open>remove\<close> on the first five time units of the
  first buffered range only when that range is longer than ten time units; with a shorter
  range or an empty buffer it evicts nothing. An exception of \<^verbatim>\<open>remove\<close> changes nothing
  else. When no eviction is under way the next \<^verbatim>\<open>appendNextChunk\<close> submits the next queued
  segment; while the eviction runs \<^verbatim>\<open>appendNextChunk\<close> does nothing, and the
  \<^verbatim>\<open>updateend\<close> of the eviction submits it.
\<close>

theorem append_failure_contained:
  assumes "sourceBufferRef s = Some sb" and "\<not> isAppendingRef s" and "\<not> updating sb"
    and "queueRef s = chunk # rest" and "appendThrows b"
  shows "\<not> isAppendingRef (appendNextChunk b s) \<and> queueRef (appendNextChunk b s) = rest
    \<and> wsRef (appendNextChunk b s) = wsRef s \<and> mediaSourceRef (appendNextChunk b s) = mediaSourceRef s
    \<and> isConnected (appendNextChunk b s) = isConnected s \<and> isBuffering (appendNextChunk b s) = isBuffering s
    \<and> error (appendNextChunk b s) = error s \<and> stats (appendNextChunk b s) = stats s
    \<and> calls (appendNextChunk b s) =
          calls s @ AppendBuffer (sb_id sb) chunk False #
            (case eviction_window (buffered sb) of
               None \<Rightarrow> []
             | Some (lo, hi) \<Rightarrow> [Remove (sb_id sb) lo hi (\<not> removeThrows b)])
    \<and> eviction_window (buffered sb) =
          (case buffered sb of
             [] \<Rightarrow> None
           | (lo, hi) # others \<Rightarrow> if hi - lo > 10 then Some (lo, lo + 5) else None)
    \<and> sourceBufferRef (appendNextChunk b s) =
          Some (sb\<lparr>updating := (eviction_window (buffered sb) \<noteq> None \<and> \<not> removeThrows b)\<rparr>)
    \<and> ((eviction_window (buffered sb) = None \<or> removeThrows b) \<and> rest = nxt # later
          \<and> \<not> appendThrows b' \<longrightarrow>
        calls (appendNextChunk b' (appendNextChunk b s)) =
          calls (appendNextChunk b s) @ [AppendBuffer (sb_id sb) nxt True])
    \<and> (eviction_window (buffered sb) \<noteq> None \<and> \<not> removeThrows b \<longrightarrow>
        appendNextChunk b' (appendNextChunk b s) = appendNextChunk b s
        \<and> (rest = nxt # later \<and> \<not> appendThrows b' \<longrightarrow>
             last (calls (client_step (appendNextChunk b s) (UpdateEnd (sb_id sb) rs b'))) =
               AppendBuffer (sb_id sb) nxt True))"
proof -
  let ?s' = "appendNextChunk b s"
  note r = appendNextChunk_rejected [OF assms]
  have resume: "calls (appendNextChunk b' ?s') = calls ?s' @ [AppendBuffer (sb_id sb) nxt True]"
    if "eviction_window (buffered sb) = None \<or> removeThrows b" "rest = nxt # later" "\<not> appendThrows b'"
  proof -
    from that(1) have sb': "sourceBufferRef ?s' = Some (sb\<lparr>updating := False\<rparr>)"
      using r(4) by auto
    show ?thesis
      using appendNextChunk_accepted(1) [OF sb' r(1) _ _ that(3), of nxt later] r(2) that(2)
      by simp
  qed
  have wait: "appendNextChunk b' ?s' = ?s'"
    if "eviction_window (buffered sb) \<noteq> None \<and> \<not> removeThrows b"
  proof -
    from that have sb': "sourceBufferRef ?s' = Some (sb\<lparr>updating := True\<rparr>)"
      using r(4) by auto
    show ?thesis by (rule appendNextChunk_busy [OF sb']) simp
  qed
  have later: "last (calls (client_step ?s' (UpdateEnd (sb_id sb) rs b'))) = AppendBuffer (sb_id sb) nxt True"
    if "eviction_window (buffered sb) \<noteq> None \<and> \<not> removeThrows b" "rest = nxt # later" "\<not> appendThrows b'"
  proof -
    from that(1) have sb': "sourceBufferRef ?s' = Some (sb\<lparr>updating := True\<rparr>)"
      using r(4) by auto
    show ?thesis
      using sb' r(2) that(2,3)
      by (simp add: on_updateend_def finished_def play_def appendNextChunk_def appendBuffer_def
          Let_def split: list.splits prod.splits)
  qed
  show ?thesis
    using r resume wait later
    by (simp add: appendNextChunk_frame eviction_window_def)
qed

text \<open>
  C6 as amended, at a concrete session with twelve time units buffered: the append of
  \<open>[3]\<close> is rejected and the window from 0 to 5 is removed.
\<close>

theorem append_failure_contained_witness:
  "sourceBufferRef long_buffered = Some \<lparr>sb_id = 1, sb_source = 0, updating = False, buffered = [(0, 12)]\<rparr>
   \<and> \<not> isAppendingRef long_buffered \<and> queueRef long_buffered = [] \<and> appendThrows rejecting
   \<and> calls (ws_onmessage [3] rejecting long_buffered) =
        calls long_buffered @ [AppendBuffer 1 [3] False, Remove 1 0 5 True]
   \<and> sourceBufferRef (ws_onmessage [3] rejecting long_buffered) =
        Some \<lparr>sb_id = 1, sb_source = 0, updating = True, buffered = [(0, 12)]\<rparr>
   \<and> error (ws_onmessage [3] rejecting long_buffered) = None
   \<and> isConnected (ws_onmessage [3] rejecting long_buffered)"
proof -
  let ?s = "long_buffered\<lparr>bytesReceivedRef := bytesReceivedRef long_buffered + length [3::8 word],
              queueRef := queueRef long_buffered @ [[3]]\<rparr>"
  have h: "sourceBufferRef ?s = Some \<lparr>sb_id = 1, sb_source = 0, updating = False, buffered = [(0, 12)]\<rparr>"
    "\<not> isAppendingRef ?s" "\<not> updating \<lparr>sb_id = 1, sb_source = 0, updating = False, buffered = [(0, 12)]\<rparr>"
    "queueRef ?s = [3] # []" "appendThrows rejecting"
    by (simp_all add: long_buffered_eq rejecting_def)
  have g: "sourceBufferRef long_buffered = Some \<lparr>sb_id = 1, sb_source = 0, updating = False, buffered = [(0, 12)]\<rparr>"
    "\<not> isAppendingRef long_buffered" "queueRef long_buffered = []" "error long_buffered = None"
    "isConnected long_buffered" "\<not> removeThrows rejecting"
    by (simp_all add: long_buffered_eq rejecting_def)
  show ?thesis
    using append_failure_contained [OF h, of "[3]" "[]" rejecting] g h(5)
    by (simp add: ws_onmessage_def eviction_window_def)
qed

text \<open>
  C6, the claim as stated, fails: with eight time units buffered the append of \<open>[2]\<close> is
  rejected and \<^verbatim>\<open>remove\<close> is never called.
\<close>

theorem no_eviction_below_ten:
  "sourceBufferRef (run_client client_init
      [Connect False True True, SourceOpen 0 AllCreated, SocketOpen 2,
       SocketMessage 2 [1] accepting, UpdateEnd 1 [(0, 8)] accepting,
       SocketMessage 2 [2] rejecting]) = Some \<lparr>sb_id = 1, sb_source = 0, updating = False, buffered = [(0, 8)]\<rparr>
   \<and> calls (run_client client_init
      [Connect False True True, SourceOpen 0 AllCreated, SocketOpen 2,
       SocketMessage 2 [1] accepting, UpdateEnd 1 [(0, 8)] accepting,
       SocketMessage 2 [2] rejecting]) =
     [AppendBuffer 1 [1] True, UpdateEndFired 1, Play, AppendBuffer 1 [2] False]"
  by (simp add: run_defs)

lemma on_updateend_stats:
  "bufferedSeconds (stats (on_updateend ((lo, hi) # others) b s)) = hi - lo"
  by (simp add: on_updateend_def play_def appendNextChunk_frame Let_def)

lemma on_updateend_crossing:
  assumes "hi - lo > 0.5" and "paused s"
  shows "\<not> isBuffering (on_updateend ((lo, hi) # others) b s)"
    and "count_list (calls (on_updateend ((lo, hi) # others) b s)) Play = Suc (count_list (calls s) Play)"
    and "playAllowed b \<longrightarrow> \<not> paused (on_updateend ((lo, hi) # others) b s)"
    and "\<not> playAllowed b \<longrightarrow> paused (on_updateend ((lo, hi) # others) b s)"
    and "isConnected (on_updateend ((lo, hi) # others) b s) = isConnected s"
  using assms
  by (simp_all add: on_updateend_def play_def appendNextChunk_frame appendNextChunk_plays Let_def)

lemma on_updateend_quiet:
  assumes "rs = [] \<or> (rs = (lo, hi) # others \<and> hi - lo \<le> 0.5) \<or> \<not> paused s"
  shows "isBuffering (on_updateend rs b s) = isBuffering s"
    and "paused (on_updateend rs b s) = paused s"
    and "count_list (calls (on_updateend rs b s)) Play = count_list (calls s) Play"
  using assms
  by (auto simp: on_updateend_def appendNextChunk_frame appendNextChunk_plays Let_def
      split: list.splits prod.splits)

lemma updateends_while_playing:
  "list_all is_updateend es \<Longrightarrow> \<not> paused s \<Longrightarrow>
   \<not> paused (run_client s es) \<and> isBuffering (run_client s es) = isBuffering s
   \<and> count_list (calls (run_client s es)) Play = count_list (calls s) Play"
proof (induction es arbitrary: s)
  case Nil
  then show ?case by (simp add: run_client_def)
next
  case (Cons ev es)
  from Cons.prems obtain i rs b where ev: "ev = UpdateEnd i rs b"
    by (cases ev) auto
  let ?s1 = "on_updateend rs b (finished i rs s)"
  have run: "run_client s (ev # es) = run_client ?s1 es"
    by (simp add: run_client_def ev)
  have np: "\<not> paused (finished i rs s)"
    using Cons.prems(2) by (simp add: finished_frame)
  have s1: "\<not> paused ?s1" "isBuffering ?s1 = isBuffering s"
    "count_list (calls ?s1) Play = count_list (calls s) Play"
    using on_updateend_quiet [where ?rs = rs and ?s = "finished i rs s" and ?b = b] np
    by (simp_all add: finished_frame)
  from Cons.prems have rest: "list_all is_updateend es" by simp
  show ?case
    using Cons.IH [OF rest s1(1)] s1(2,3) by (simp add: run)
qed

lemma on_updateend_empty: "stats (on_updateend [] b s) = stats s"
  by (simp add: on_updateend_def appendNextChunk_frame Let_def)

text \<open>
  C7. The claim as amended: on an \<^verbatim>\<open>updateend\<close> whose buffer reports a first range from
  \<open>lo\<close> to \<open>hi\<close>, the statistics take \<open>hi - lo\<close> as the buffered duration; when the
  buffer reports no range the statistics are left as they were. If the duration exceeds
  0.5 while the video is paused, \<^verbatim>\<open>play()\<close> is called once and the buffering flag is
  cleared, so a connected client goes from buffering to streaming; the video leaves the
  paused state when the browser allows it to play and stays paused when it refuses. With
  no range, with a duration of at most 0.5, or with the video already playing, the callback
  calls no \<^verbatim>\<open>play()\<close> and leaves the flag as it is; over any run of completion callbacks
  that starts with the video playing there is no further \<^verbatim>\<open>play()\<close> and no further
  change of the flag.
\<close>

theorem threshold_transition:
  "(rs = (lo, hi) # others \<longrightarrow>
      bufferedSeconds (stats (client_step s (UpdateEnd i rs b))) = hi - lo)
   \<and> (rs = [] \<longrightarrow> stats (client_step s (UpdateEnd i rs b)) = stats s)
   \<and> (rs = (lo, hi) # others \<and> hi - lo > 0.5 \<and> paused s \<longrightarrow>
        \<not> isBuffering (client_step s (UpdateEnd i rs b))
        \<and> count_list (calls (client_step s (UpdateEnd i rs b))) Play = Suc (count_list (calls s) Play)
        \<and> (playAllowed b \<longrightarrow> \<not> paused (client_step s (UpdateEnd i rs b)))
        \<and> (\<not> playAllowed b \<longrightarrow> paused (client_step s (UpdateEnd i rs b)))
        \<and> (status s = Buffering \<longrightarrow> status (client_step s (UpdateEnd i rs b)) = Streaming))
   \<and> (rs = [] \<or> (rs = (lo, hi) # others \<and> hi - lo \<le> 0.5) \<or> \<not> paused s \<longrightarrow>
        isBuffering (client_step s (UpdateEnd i rs b)) = isBuffering s
        \<and> paused (client_step s (UpdateEnd i rs b)) = paused s
        \<and> count_list (calls (client_step s (UpdateEnd i rs b))) Play = count_list (calls s) Play)
   \<and> (list_all is_updateend es \<and> \<not> paused s \<longrightarrow>
        \<not> paused (run_client s es) \<and> isBuffering (run_client s es) = isBuffering s
        \<and> count_list (calls (run_client s es)) Play = count_list (calls s) Play)"
proof -
  let ?f = "finished i rs s"
  have a: "rs = (lo, hi) # others \<longrightarrow>
      bufferedSeconds (stats (client_step s (UpdateEnd i rs b))) = hi - lo"
    by (simp add: on_updateend_stats)
  have e: "rs = [] \<longrightarrow> stats (client_step s (UpdateEnd i rs b)) = stats s"
    by (simp add: on_updateend_empty finished_frame)
  have b: "rs = (lo, hi) # others \<and> hi - lo > 0.5 \<and> paused s \<longrightarrow>
        \<not> isBuffering (client_step s (UpdateEnd i rs b))
        \<and> count_list (calls (client_step s (UpdateEnd i rs b))) Play = Suc (count_list (calls s) Play)
        \<and> (playAllowed b \<longrightarrow> \<not> paused (client_step s (UpdateEnd i rs b)))
        \<and> (\<not> playAllowed b \<longrightarrow> paused (client_step s (UpdateEnd i rs b)))
        \<and> (status s = Buffering \<longrightarrow> status (client_step s (UpdateEnd i rs b)) = Streaming)"
  proof (intro impI)
    assume h: "rs = (lo, hi) # others \<and> hi - lo > 0.5 \<and> paused s"
    then have p: "paused ?f" and gt: "hi - lo > 0.5" and rs: "rs = (lo, hi) # others"
      by (simp_all add: finished_frame)
    note x = on_updateend_crossing [where ?lo = lo and ?hi = hi and ?s = ?f and ?others = others
        and ?b = b, OF gt p]
    show "\<not> isBuffering (client_step s (UpdateEnd i rs b))
        \<and> count_list (calls (client_step s (UpdateEnd i rs b))) Play = Suc (count_list (calls s) Play)
        \<and> (playAllowed b \<longrightarrow> \<not> paused (client_step s (UpdateEnd i rs b)))
        \<and> (\<not> playAllowed b \<longrightarrow> paused (client_step s (UpdateEnd i rs b)))
        \<and> (status s = Buffering \<longrightarrow> status (client_step s (UpdateEnd i rs b)) = Streaming)"
      using x unfolding rs by (simp add: finished_frame status_def split: if_splits)
  qed
  have c: "rs = [] \<or> (rs = (lo, hi) # others \<and> hi - lo \<le> 0.5) \<or> \<not> paused s \<longrightarrow>
        isBuffering (client_step s (UpdateEnd i rs b)) = isBuffering s
        \<and> paused (client_step s (UpdateEnd i rs b)) = paused s
        \<and> count_list (calls (client_step s (UpdateEnd i rs b))) Play = count_list (calls s) Play"
    using on_updateend_quiet [where ?rs = rs and ?lo = lo and ?hi = hi and ?s = ?f and ?others = others and ?b = b]
    by (simp add: finished_frame)
  show ?thesis
    using a e b c updateends_while_playing [of es s] by blast
qed

text \<open>
  C7 as amended, at concrete sessions: the callback that reports 0.6 time units starts
  playback; later callbacks of a playing session do not, and one that reports no range
  leaves the statistics at twelve time units.
\<close>

theorem threshold_transition_witness:
  "paused in_flight \<and> status in_flight = Buffering \<and> (0.6::real) - 0 > 0.5
   \<and> status (client_step in_flight (UpdateEnd 1 [(0, 0.6)] accepting)) = Streaming
   \<and> bufferedSeconds (stats (client_step in_flight (UpdateEnd 1 [(0, 0.6)] accepting))) = 0.6
   \<and> count_list (calls (client_step in_flight (UpdateEnd 1 [(0, 0.6)] accepting))) Play = 1
   \<and> \<not> paused (client_step in_flight (UpdateEnd 1 [(0, 0.6)] accepting))
   \<and> paused (client_step in_flight (UpdateEnd 1 [(0, 0.6)] refusing))
   \<and> \<not> paused long_buffered
   \<and> list_all is_updateend [UpdateEnd 1 [(0, 13)] accepting, UpdateEnd 1 [] accepting]
   \<and> isBuffering (client_step long_buffered (UpdateEnd 1 [(0, 13)] accepting)) = False
   \<and> bufferedSeconds (stats (client_step long_buffered (UpdateEnd 1 [] accepting))) = 12
   \<and> count_list (calls (run_client long_buffered
        [UpdateEnd 1 [(0, 13)] accepting, UpdateEnd 1 [] accepting])) Play = 1"
proof -
  have h: "paused in_flight" "status in_flight = Buffering" "playAllowed accepting"
    "\<not> playAllowed refusing"
    "count_list (calls in_flight) Play = 0"
    "\<not> paused long_buffered" "isBuffering long_buffered = False"
    "count_list (calls long_buffered) Play = 1"
    "stats long_buffered = \<lparr>bufferedSeconds = 12, bytesReceived = 2\<rparr>"
    by (simp_all add: in_flight_eq long_buffered_eq status_def accepting_def refusing_def)
  show ?thesis
    using threshold_transition [of "[(0, 0.6)]" 0 "0.6" "[]" in_flight 1 accepting "[]"]
      threshold_transition [of "[(0, 0.6)]" 0 "0.6" "[]" in_flight 1 refusing "[]"]
      threshold_transition [of "[(0, 13)]" 0 13 "[]" long_buffered 1 accepting
        "[UpdateEnd 1 [(0, 13)] accepting, UpdateEnd 1 [] accepting]"]
      threshold_transition [of "[]" 0 0 "[]" long_buffered 1 accepting "[]"] h
    by simp
qed

text \<open>
  C7, the claim as stated, fails. In the first session twelve time units are buffered and
  shown, a third segment is appended, and its \<^verbatim>\<open>updateend\<close> finds no buffered range:
  the statistics still show twelve time units with nothing buffered. In the second session
  the duration crosses 0.5 and the browser refuses to play: the client shows streaming while
  the video is still paused.
\<close>

theorem stale_duration_and_refused_play:
  "sourceBufferRef (run_client client_init
      [Connect False True True, SourceOpen 0 AllCreated, SocketOpen 2,
       SocketMessage 2 [1] accepting, UpdateEnd 1 [(0, 12)] accepting,
       SocketMessage 2 [2] accepting, UpdateEnd 1 [] accepting]) =
     Some \<lparr>sb_id = 1, sb_source = 0, updating = False, buffered = []\<rparr>
   \<and> bufferedSeconds (stats (run_client client_init
      [Connect False True True, SourceOpen 0 AllCreated, SocketOpen 2,
       SocketMessage 2 [1] accepting, UpdateEnd 1 [(0, 12)] accepting,
       SocketMessage 2 [2] accepting, UpdateEnd 1 [] accepting])) = 12
   \<and> paused (run_client client_init
      [Connect False True True, SourceOpen 0 AllCreated, SocketOpen 2,
       SocketMessage 2 [1] accepting, UpdateEnd 1 [(0, 0.6)] refusing])
   \<and> status (run_client client_init
      [Connect False True True, SourceOpen 0 AllCreated, SocketOpen 2,
       SocketMessage 2 [1] accepting, UpdateEnd 1 [(0, 0.6)] refusing]) = Streaming"
  by (simp add: run_defs status_def)

lemma endOfStream_cases:
  "ms_readyState m = MsOpen \<Longrightarrow> endOfStream e m None = (\<not> e)"
  "ms_readyState m = MsOpen \<Longrightarrow> sb_source sb = ms_id m \<Longrightarrow>
     endOfStream e m (Some sb) = (\<not> e \<and> \<not> updating sb)"
  by (auto simp: endOfStream_def)

lemma cleanup_calls:
  "calls (cleanup e s) =
     calls s @ (case wsRef s of Some w \<Rightarrow> [SocketClose w] | None \<Rightarrow> [])
       @ (case mediaSourceRef s of
            Some m \<Rightarrow>
              if ms_readyState m = MsOpen
              then [EndOfStream (ms_id m) (endOfStream e m (sourceBufferRef s))] else []
          | None \<Rightarrow> [])"
  by (simp add: cleanup_def Let_def split: option.splits)

text \<open>
  C8. The claim as amended: \<^verbatim>\<open>disconnect\<close> is a total function of the state. From every
  state, an append in flight or not, it ends disconnected with the refs, the queue, the
  flag, the byte count and the statistics reset; it has closed the socket when there was
  one; when the media source was open it has called \<^verbatim>\<open>endOfStream()\<close>, and that call
  signals end-of-stream exactly when the browser has no other reason to throw and the
  source buffer of that media source is not updating (with an append or an eviction in
  flight the call throws and the exception is ignored); these are its only calls; and a
  second \<^verbatim>\<open>disconnect\<close> changes nothing.
\<close>

theorem disconnect_teardown:
  "status (disconnect e s) = Disconnected
   \<and> wsRef (disconnect e s) = None \<and> mediaSourceRef (disconnect e s) = None
   \<and> sourceBufferRef (disconnect e s) = None \<and> queueRef (disconnect e s) = []
   \<and> \<not> isAppendingRef (disconnect e s) \<and> bytesReceivedRef (disconnect e s) = 0
   \<and> stats (disconnect e s) = \<lparr>bufferedSeconds = 0, bytesReceived = 0\<rparr>
   \<and> (\<forall>w. wsRef s = Some w \<longrightarrow> SocketClose w \<in> set (calls (disconnect e s)))
   \<and> (\<forall>m. mediaSourceRef s = Some m \<and> ms_readyState m = MsOpen \<longrightarrow>
          EndOfStream (ms_id m) (endOfStream e m (sourceBufferRef s))
            \<in> set (calls (disconnect e s)))
   \<and> (\<forall>m. ms_readyState m = MsOpen \<longrightarrow> endOfStream e m None = (\<not> e))
   \<and> (\<forall>m sb. ms_readyState m = MsOpen \<and> sb_source sb = ms_id m \<longrightarrow>
          endOfStream e m (Some sb) = (\<not> e \<and> \<not> updating sb))
   \<and> calls (disconnect e s) =
        calls s @ (case wsRef s of Some w \<Rightarrow> [SocketClose w] | None \<Rightarrow> [])
          @ (case mediaSourceRef s of
               Some m \<Rightarrow>
                 if ms_readyState m = MsOpen
                 then [EndOfStream (ms_id m) (endOfStream e m (sourceBufferRef s))] else []
             | None \<Rightarrow> [])
   \<and> disconnect e' (disconnect e s) = disconnect e s"
proof -
  have fields: "status (disconnect e s) = Disconnected
   \<and> wsRef (disconnect e s) = None \<and> mediaSourceRef (disconnect e s) = None
   \<and> sourceBufferRef (disconnect e s) = None \<and> queueRef (disconnect e s) = []
   \<and> \<not> isAppendingRef (disconnect e s) \<and> bytesReceivedRef (disconnect e s) = 0
   \<and> stats (disconnect e s) = \<lparr>bufferedSeconds = 0, bytesReceived = 0\<rparr>"
    by (simp add: disconnect_def cleanup_def status_def Let_def split: option.splits)
  have c: "calls (disconnect e s) =
        calls s @ (case wsRef s of Some w \<Rightarrow> [SocketClose w] | None \<Rightarrow> [])
          @ (case mediaSourceRef s of
               Some m \<Rightarrow>
                 if ms_readyState m = MsOpen
                 then [EndOfStream (ms_id m) (endOfStream e m (sourceBufferRef s))] else []
             | None \<Rightarrow> [])"
    by (simp add: disconnect_def cleanup_calls)
  have w: "\<forall>w. wsRef s = Some w \<longrightarrow> SocketClose w \<in> set (calls (disconnect e s))"
    by (simp add: c)
  have m: "\<forall>m. mediaSourceRef s = Some m \<and> ms_readyState m = MsOpen \<longrightarrow>
          EndOfStream (ms_id m) (endOfStream e m (sourceBufferRef s))
            \<in> set (calls (disconnect e s))"
    by (simp add: c)
  have twice: "disconnect e' (disconnect e s) = disconnect e s"
    by (simp add: disconnect_def cleanup_twice)
  show ?thesis
    using fields c w m twice endOfStream_cases by blast
qed

text \<open>
  C8 as amended, at two concrete sessions: with an append in flight \<^verbatim>\<open>endOfStream()\<close>
  throws; with the buffer at rest it signals end-of-stream.
\<close>

theorem disconnect_teardown_witness:
  "wsRef in_flight = Some 2
   \<and> mediaSourceRef in_flight = Some \<lparr>ms_id = 0, ms_readyState = MsOpen\<rparr>
   \<and> sourceBufferRef in_flight = Some \<lparr>sb_id = 1, sb_source = 0, updating = True, buffered = []\<rparr>
   \<and> status (disconnect False in_flight) = Disconnected
   \<and> SocketClose 2 \<in> set (calls (disconnect False in_flight))
   \<and> EndOfStream 0 False \<in> set (calls (disconnect False in_flight))
   \<and> stats (disconnect False in_flight) = \<lparr>bufferedSeconds = 0, bytesReceived = 0\<rparr>
   \<and> disconnect False (disconnect False in_flight) = disconnect False in_flight
   \<and> mediaSourceRef long_buffered = Some \<lparr>ms_id = 0, ms_readyState = MsOpen\<rparr>
   \<and> sourceBufferRef long_buffered =
        Some \<lparr>sb_id = 1, sb_source = 0, updating = False, buffered = [(0, 12)]\<rparr>
   \<and> EndOfStream 0 True \<in> set (calls (disconnect False long_buffered))"
proof -
  have h: "wsRef in_flight = Some 2"
    "mediaSourceRef in_flight = Some \<lparr>ms_id = 0, ms_readyState = MsOpen\<rparr>"
    "sourceBufferRef in_flight = Some \<lparr>sb_id = 1, sb_source = 0, updating = True, buffered = []\<rparr>"
    "mediaSourceRef long_buffered = Some \<lparr>ms_id = 0, ms_readyState = MsOpen\<rparr>"
    "sourceBufferRef long_buffered =
        Some \<lparr>sb_id = 1, sb_source = 0, updating = False, buffered = [(0, 12)]\<rparr>"
    by (simp_all add: in_flight_eq long_buffered_eq)
  show ?thesis
    using disconnect_teardown [of False in_flight False]
      disconnect_teardown [of False long_buffered False] h
    by simp
qed

text \<open>
  C8, the claim as stated, fails: the client disconnects while the append of segment
  \<open>[1]\<close> is in flight. The media source is open and \<^verbatim>\<open>endOfStream()\<close> is called, but
  the buffer is updating, so the call throws and end-of-stream is not signalled.
\<close>

theorem end_of_stream_refused_in_flight:
  "calls (run_client client_init
      [Connect False True True, SourceOpen 0 AllCreated, SocketOpen 2,
       SocketMessage 2 [1] accepting, Disconnect False]) =
     [AppendBuffer 1 [1] True, SocketClose 2, EndOfStream 0 False]
   \<and> status (run_client client_init
      [Connect False True True, SourceOpen 0 AllCreated, SocketOpen 2,
       SocketMessage 2 [1] accepting, Disconnect False]) = Disconnected"
  by (simp add: run_defs status_def)

text \<open>
  C10. \<^verbatim>\<open>disconnect\<close> leaves the error message as it is while the status becomes
  disconnected; \<^verbatim>\<open>connect\<close> with a video element and \<^verbatim>\<open>MediaSource\<close> support ends with
  no error; and no event other than \<^verbatim>\<open>connect\<close> turns an error into none.
\<close>

theorem disconnect_keeps_error:
  "error (disconnect e s) = error s
   \<and> status (disconnect e s) = Disconnected
   \<and> error (connect e True True s) = None
   \<and> (\<forall>ev. \<not> is_connect ev \<and> error s \<noteq> None \<longrightarrow> error (client_step s ev) \<noteq> None)"
proof -
  have "error (client_step s ev) \<noteq> None" if "\<not> is_connect ev" "error s \<noteq> None" for ev
    using that
    by (cases ev) (auto simp: handler_defs appendNextChunk_frame Let_def split: option.splits list.splits open_result.splits)
  then show ?thesis
    by (simp add: disconnect_def connect_def cleanup_def status_def Let_def split: option.splits)
qed

text \<open>
  C10 at a concrete session: a socket error, then \<^verbatim>\<open>disconnect\<close>.
\<close>

theorem disconnect_keeps_error_witness:
  "error (client_step in_flight (SocketError 2)) = Some ''WebSocket connection error''
   \<and> \<not> is_connect (Disconnect False)
   \<and> error (client_step (client_step in_flight (SocketError 2)) (Disconnect False)) =
       Some ''WebSocket connection error''
   \<and> status (disconnect False (client_step in_flight (SocketError 2))) = Disconnected
   \<and> error (connect False True True (client_step in_flight (SocketError 2))) = None"
proof -
  have h: "error (client_step in_flight (SocketError 2)) = Some ''WebSocket connection error''"
    by (simp add: ws_onerror_def)
  show ?thesis
    using disconnect_keeps_error [of False "client_step in_flight (SocketError 2)"] h
    by (simp add: disconnect_def [symmetric])
qed

end
